theory Spec2Isabelle
  imports Main
begin

section \<open>The layer registry facade of \<open>examples/qgis_example.py\<close>\<close>

text \<open>
  The class \<open>QGISProjectManager\<close> wraps a project store, layer objects and a file writer
  that belong to the GIS toolkit. The toolkit is not part of the repository, so its
  objects are modelled from the data model of the specification; the methods of the
  class are translated from the source, statement by statement. \<open>print\<close> calls produce
  console output only and are left out.
\<close>

subsection \<open>Exceptions\<close>

text \<open>
  Every call into the toolkit may raise. A raised exception is the left summand of the
  result; \<open>except Exception\<close> catches every exception modelled here.
\<close>

type_synonym layer_id = nat

datatype call =
    MapLayers
  | AddMapLayer layer_id
  | RemoveMapLayer layer_id
  | NewVectorLayer string
  | NewRasterLayer string
  | LayerIsValid layer_id
  | LayerName layer_id
  | LayerType layer_id
  | LayerId layer_id
  | LayerCrs layer_id
  | LayerFields layer_id
  | GetFeatures layer_id
  | SelectByIds layer_id
  | RemoveSelection layer_id
  | FeatureAttribute int
  | WriteAsVectorFormat layer_id

datatype exn = RuntimeError call | AttributeError | KeyError

definition bind :: "exn + 'a \<Rightarrow> ('a \<Rightarrow> exn + 'b) \<Rightarrow> exn + 'b" where
  "bind m f = (case m of Inl e \<Rightarrow> Inl e | Inr x \<Rightarrow> f x)"

definition try_except :: "exn + 'a \<Rightarrow> 'a \<Rightarrow> 'a" where
  \<comment> \<open>\<open>try: body\<close> / \<open>except Exception: return handler\<close>\<close>
  "try_except body handler = (case body of Inl e \<Rightarrow> handler | Inr v \<Rightarrow> v)"

subsection \<open>Data model\<close>

datatype layer_kind = Vector | Raster

fun type_code :: "layer_kind \<Rightarrow> int" where
  "type_code Vector = 0"
| "type_code Raster = 1"

datatype qvalue = QNull | QInt int | QStr string

record row =
  row_id :: int
  row_values :: "qvalue list"

record feature =
  fid :: int
  ffields :: "string list"
  fattrs :: "qvalue list"

record layer =
  lid :: layer_id
  lname :: string
  kind :: layer_kind
  crs :: string
  valid :: bool
  lfields :: "string list"
  rows :: "row list"
  selection :: "int list"

record vsource =
  src_crs :: string
  src_fields :: "string list"
  src_rows :: "row list"

text \<open>
  Modelled from the spec: the project store, the layer constructor and the codec are the
  toolkit's. The project holds the mapping from layer id to layer as the list of its
  layers in iteration order, each layer carrying its id. \<open>faulty\<close> is the set of toolkit
  calls that raise in this state; \<open>vector_sources\<close> and \<open>raster_sources\<close> say what the
  layer constructors can read from a path (\<open>None\<close>: the constructed layer is invalid);
  \<open>codec\<close> is the error code the file writer reports, \<open>0\<close> for no error.
\<close>

record project =
  layers :: "layer list"
  faulty :: "call set"
  vector_sources :: "string \<Rightarrow> vsource option"
  raster_sources :: "string \<Rightarrow> string option"
  codec :: "layer \<Rightarrow> string \<Rightarrow> string \<Rightarrow> string \<Rightarrow> string \<Rightarrow> nat"

subsection \<open>Toolkit calls\<close>

definition invoke :: "project \<Rightarrow> call \<Rightarrow> 'a \<Rightarrow> exn + 'a" where
  "invoke p c v = (if c \<in> faulty p then Inl (RuntimeError c) else Inr v)"

text \<open>Modelled from the spec: \<open>project.mapLayers()\<close>, the mapping from id to layer.\<close>

definition mapLayers :: "project \<Rightarrow> exn + (layer_id \<times> layer) list" where
  "mapLayers p = invoke p MapLayers (map (\<lambda>l. (lid l, l)) (layers p))"

text \<open>Modelled from the spec: the accessors of a layer object.\<close>

definition name :: "project \<Rightarrow> layer \<Rightarrow> exn + string" where
  "name p l = invoke p (LayerName (lid l)) (lname l)"

definition type :: "project \<Rightarrow> layer \<Rightarrow> exn + int" where
  "type p l = invoke p (LayerType (lid l)) (type_code (kind l))"

definition id_of :: "project \<Rightarrow> layer \<Rightarrow> exn + layer_id" where
  "id_of p l = invoke p (LayerId (lid l)) (lid l)"

definition isValid :: "project \<Rightarrow> layer \<Rightarrow> exn + bool" where
  "isValid p l = invoke p (LayerIsValid (lid l)) (valid l)"

definition crs_of :: "project \<Rightarrow> layer \<Rightarrow> exn + string" where
  \<comment> \<open>\<open>layer.crs()\<close>; the reference system object is identified with its authority id\<close>
  "crs_of p l = invoke p (LayerCrs (lid l)) (crs l)"

text \<open>
  Modelled from the spec: only a Vector layer has features, fields and a selection; a
  Raster layer object has none of these methods, so calling one raises
  \<open>AttributeError\<close>. The features of a layer all carry the layer's schema.
\<close>

definition feature_of :: "layer \<Rightarrow> row \<Rightarrow> feature" where
  "feature_of l r = \<lparr>fid = row_id r, ffields = lfields l, fattrs = row_values r\<rparr>"

definition getFeatures :: "project \<Rightarrow> layer \<Rightarrow> exn + feature list" where
  "getFeatures p l =
     (if kind l = Raster then Inl AttributeError
      else invoke p (GetFeatures (lid l)) (map (feature_of l) (rows l)))"

definition fields_of :: "project \<Rightarrow> layer \<Rightarrow> exn + string list" where
  "fields_of p l =
     (if kind l = Raster then Inl AttributeError
      else invoke p (LayerFields (lid l)) (lfields l))"

fun index_of :: "'a \<Rightarrow> 'a list \<Rightarrow> nat option" where
  "index_of x [] = None"
| "index_of x (y # ys) =
     (if x = y then Some 0 else map_option Suc (index_of x ys))"

text \<open>
  Modelled from the spec: \<open>feature.attribute(name)\<close> reads the value of a named field
  and raises \<open>KeyError\<close> when the schema has no field of that name.
\<close>

definition field_value :: "feature \<Rightarrow> string \<Rightarrow> qvalue option" where
  "field_value f a =
     (case index_of a (ffields f) of
        None \<Rightarrow> None
      | Some i \<Rightarrow> Some (if i < length (fattrs f) then fattrs f ! i else QNull))"

definition attribute :: "project \<Rightarrow> feature \<Rightarrow> string \<Rightarrow> exn + qvalue" where
  "attribute p f a =
     (case field_value f a of
        None \<Rightarrow> Inl KeyError
      | Some x \<Rightarrow> invoke p (FeatureAttribute (fid f)) x)"

text \<open>
  Modelled from the spec: \<open>select\<close> replaces the selection set of the layer with exactly
  the given ids, \<open>clear_selection\<close> empties it. The layer object is the one held by the
  project, found by its id.
\<close>

definition update_layer :: "layer_id \<Rightarrow> (layer \<Rightarrow> layer) \<Rightarrow> project \<Rightarrow> project" where
  "update_layer i f p = p\<lparr>layers := map (\<lambda>x. if lid x = i then f x else x) (layers p)\<rparr>"

definition selectByIds :: "project \<Rightarrow> layer \<Rightarrow> int list \<Rightarrow> exn + project" where
  "selectByIds p l ids =
     (if kind l = Raster then Inl AttributeError
      else invoke p (SelectByIds (lid l)) (update_layer (lid l) (\<lambda>x. x\<lparr>selection := ids\<rparr>) p))"

definition removeSelection :: "project \<Rightarrow> layer \<Rightarrow> exn + project" where
  "removeSelection p l =
     (if kind l = Raster then Inl AttributeError
      else invoke p (RemoveSelection (lid l)) (update_layer (lid l) (\<lambda>x. x\<lparr>selection := []\<rparr>) p))"

text \<open>
  Modelled from the spec: the layer constructors build a layer from a file path and set
  its validity flag; the id is the one the project assigns on insertion, unique among
  the layers of the project.
\<close>

definition fresh_id :: "layer list \<Rightarrow> layer_id" where
  "fresh_id ls = Suc (fold max (map lid ls) 0)"

definition QgsVectorLayer :: "project \<Rightarrow> string \<Rightarrow> string \<Rightarrow> exn + layer" where
  "QgsVectorLayer p file_path nm =
     invoke p (NewVectorLayer file_path)
       (case vector_sources p file_path of
          None \<Rightarrow> \<lparr>lid = fresh_id (layers p), lname = nm, kind = Vector, crs = [],
                    valid = False, lfields = [], rows = [], selection = []\<rparr>
        | Some s \<Rightarrow> \<lparr>lid = fresh_id (layers p), lname = nm, kind = Vector, crs = src_crs s,
                    valid = True, lfields = src_fields s, rows = src_rows s, selection = []\<rparr>)"

definition QgsRasterLayer :: "project \<Rightarrow> string \<Rightarrow> string \<Rightarrow> exn + layer" where
  "QgsRasterLayer p file_path nm =
     invoke p (NewRasterLayer file_path)
       (case raster_sources p file_path of
          None \<Rightarrow> \<lparr>lid = fresh_id (layers p), lname = nm, kind = Raster, crs = [],
                    valid = False, lfields = [], rows = [], selection = []\<rparr>
        | Some c \<Rightarrow> \<lparr>lid = fresh_id (layers p), lname = nm, kind = Raster, crs = c,
                    valid = True, lfields = [], rows = [], selection = []\<rparr>)"

text \<open>Modelled from the spec: add-layer and remove-layer-by-id of the project store.\<close>

definition addMapLayer :: "project \<Rightarrow> layer \<Rightarrow> exn + project" where
  "addMapLayer p l = invoke p (AddMapLayer (lid l)) (p\<lparr>layers := layers p @ [l]\<rparr>)"

definition removeMapLayer :: "project \<Rightarrow> layer_id \<Rightarrow> exn + project" where
  "removeMapLayer p i =
     invoke p (RemoveMapLayer i) (p\<lparr>layers := filter (\<lambda>x. lid x \<noteq> i) (layers p)\<rparr>)"

text \<open>Modelled from the spec: the codec writes a Vector layer and reports an error code.\<close>

definition NoError :: nat where
  "NoError = 0"

definition writeAsVectorFormat ::
  "project \<Rightarrow> layer \<Rightarrow> string \<Rightarrow> string \<Rightarrow> string \<Rightarrow> string \<Rightarrow> exn + nat" where
  "writeAsVectorFormat p l output_path encoding c driver_name =
     invoke p (WriteAsVectorFormat (lid l)) (codec p l output_path encoding c driver_name)"

subsection \<open>Paths: \<open>os.path.basename\<close> and \<open>os.path.splitext\<close>\<close>

text \<open>
  The two functions of Python's standard library, in their POSIX form: \<open>rfind\<close> gives
  the last index of a character or \<open>-1\<close>, and the slices \<open>p[i:]\<close>, \<open>p[:i]\<close> are \<open>drop\<close>
  and \<open>take\<close> for indices that are not negative.
\<close>

fun rfind_from :: "char \<Rightarrow> string \<Rightarrow> int \<Rightarrow> int \<Rightarrow> int" where
  "rfind_from c [] i found = found"
| "rfind_from c (x # xs) i found = rfind_from c xs (i + 1) (if x = c then i else found)"

definition rfind :: "string \<Rightarrow> char \<Rightarrow> int" where
  "rfind p c = rfind_from c p 0 (- 1)"

definition basename :: "string \<Rightarrow> string" where
  "basename p = (let i = rfind p (CHR ''/'') + 1 in drop (nat i) p)"

function skip_leading_dots :: "string \<Rightarrow> nat \<Rightarrow> nat \<Rightarrow> bool" where
  \<comment> \<open>the \<open>while filenameIndex < dotIndex\<close> loop of \<open>_splitext\<close>: it returns the split
      (here \<open>True\<close>) at the first character before the dot that is not a dot\<close>
  "skip_leading_dots p filenameIndex dotIndex =
     (if filenameIndex < dotIndex
      then (if take 1 (drop filenameIndex p) \<noteq> ''.'' then True
            else skip_leading_dots p (filenameIndex + 1) dotIndex)
      else False)"
  by pat_completeness auto
termination
  by (relation "measure (\<lambda>(p, filenameIndex, dotIndex). dotIndex - filenameIndex)") auto

declare skip_leading_dots.simps [simp del]

definition splitext :: "string \<Rightarrow> string \<times> string" where
  "splitext p =
     (let sepIndex = rfind p (CHR ''/'');
          dotIndex = rfind p (CHR ''.'')
      in if dotIndex > sepIndex
            \<and> skip_leading_dots p (nat (sepIndex + 1)) (nat dotIndex)
         then (take (nat dotIndex) p, drop (nat dotIndex) p)
         else (p, []))"

subsection \<open>The methods of \<open>QGISProjectManager\<close>\<close>

text \<open>
  A method takes the project and returns its result with the project after the call.
  \<open>get_layer_by_name\<close> and \<open>list_layers\<close> have no \<open>try\<close> block: their result is a sum.
\<close>

fun find_layer :: "project \<Rightarrow> string \<Rightarrow> layer list \<Rightarrow> exn + layer option" where
  \<comment> \<open>the loop \<open>for layer in ...values(): if layer.name() == layer_name: return layer\<close>\<close>
  "find_layer p layer_name [] = Inr None"
| "find_layer p layer_name (l # ls) =
     (case name p l of
        Inl e \<Rightarrow> Inl e
      | Inr n \<Rightarrow> if n = layer_name then Inr (Some l) else find_layer p layer_name ls)"

definition get_layer_by_name :: "string \<Rightarrow> project \<Rightarrow> exn + (layer option \<times> project)" where
  "get_layer_by_name layer_name p =
     bind (mapLayers p) (\<lambda>m.
     bind (find_layer p layer_name (map snd m)) (\<lambda>r.
     Inr (r, p)))"

record layer_info =
  info_id :: layer_id
  info_name :: string
  info_type :: int
  info_valid :: bool
  info_crs :: string

fun list_loop :: "project \<Rightarrow> (layer_id \<times> layer) list \<Rightarrow> layer_info list \<Rightarrow> exn + layer_info list" where
  \<comment> \<open>the loop of \<open>list_layers\<close>; a reference system object is true in a condition, so the
      \<open>"Unknown"\<close> branch is never taken\<close>
  "list_loop p [] layers_info = Inr layers_info"
| "list_loop p ((layer_id, l) # rest) layers_info =
     (case name p l of Inl e \<Rightarrow> Inl e | Inr n \<Rightarrow>
     (case type p l of Inl e \<Rightarrow> Inl e | Inr t \<Rightarrow>
     (case isValid p l of Inl e \<Rightarrow> Inl e | Inr v \<Rightarrow>
     (case crs_of p l of Inl e \<Rightarrow> Inl e | Inr c \<Rightarrow>
        list_loop p rest
          (layers_info @ [\<lparr>info_id = layer_id, info_name = n, info_type = t,
                            info_valid = v, info_crs = c\<rparr>])))))"

definition list_layers :: "project \<Rightarrow> exn + (layer_info list \<times> project)" where
  "list_layers p =
     bind (mapLayers p) (\<lambda>m.
     bind (list_loop p m []) (\<lambda>layers_info.
     Inr (layers_info, p)))"

definition name_or :: "string option \<Rightarrow> string \<Rightarrow> string" where
  \<comment> \<open>\<open>layer_name or default\<close>: \<open>None\<close> and the empty string are false\<close>
  "name_or layer_name derived =
     (case layer_name of None \<Rightarrow> derived | Some s \<Rightarrow> if s = [] then derived else s)"

definition add_vector_layer :: "string \<Rightarrow> string option \<Rightarrow> project \<Rightarrow> layer option \<times> project" where
  "add_vector_layer file_path layer_name p =
     try_except
       (let nm = name_or layer_name (fst (splitext (basename file_path))) in
        bind (QgsVectorLayer p file_path nm) (\<lambda>l.
        bind (isValid p l) (\<lambda>v.
        if \<not> v then Inr (None, p)
        else bind (addMapLayer p l) (\<lambda>p'. Inr (Some l, p')))))
       (None, p)"

definition add_raster_layer :: "string \<Rightarrow> string option \<Rightarrow> project \<Rightarrow> layer option \<times> project" where
  "add_raster_layer file_path layer_name p =
     try_except
       (let nm = name_or layer_name (fst (splitext (basename file_path))) in
        bind (QgsRasterLayer p file_path nm) (\<lambda>l.
        bind (isValid p l) (\<lambda>v.
        if \<not> v then Inr (None, p)
        else bind (addMapLayer p l) (\<lambda>p'. Inr (Some l, p')))))
       (None, p)"

definition remove_layer :: "string \<Rightarrow> project \<Rightarrow> bool \<times> project" where
  \<comment> \<open>\<open>if layer:\<close> holds for every layer object\<close>
  "remove_layer layer_name p =
     try_except
       (bind (get_layer_by_name layer_name p) (\<lambda>(layer, p1).
        case layer of
          Some l \<Rightarrow>
            bind (id_of p1 l) (\<lambda>i.
            bind (removeMapLayer p1 i) (\<lambda>p2. Inr (True, p2)))
        | None \<Rightarrow> Inr (False, p1)))
       (False, p)"

fun features_loop :: "int option \<Rightarrow> int \<Rightarrow> feature list \<Rightarrow> feature list \<Rightarrow> feature list" where
  \<comment> \<open>\<open>for i, feature in enumerate(...): if limit and i >= limit: break\<close>;
      \<open>None\<close> and \<open>0\<close> are false in the condition\<close>
  "features_loop limit i [] features = features"
| "features_loop limit i (f # fs) features =
     (if (case limit of None \<Rightarrow> False | Some n \<Rightarrow> n \<noteq> 0 \<and> i \<ge> n) then features
      else features_loop limit (i + 1) fs (features @ [f]))"

definition get_layer_features :: "string \<Rightarrow> int option \<Rightarrow> project \<Rightarrow> feature list \<times> project" where
  "get_layer_features layer_name limit p =
     try_except
       (bind (get_layer_by_name layer_name p) (\<lambda>(layer, p1).
        case layer of
          None \<Rightarrow> Inr ([], p1)
        | Some l \<Rightarrow>
            bind (type p1 l) (\<lambda>t.
            if t \<noteq> 0 then Inr ([], p1)
            else bind (getFeatures p1 l) (\<lambda>fs.
                 Inr (features_loop limit 0 fs [], p1)))))
       ([], p)"

definition get_layer_attributes :: "string \<Rightarrow> project \<Rightarrow> string list \<times> project" where
  "get_layer_attributes layer_name p =
     try_except
       (bind (get_layer_by_name layer_name p) (\<lambda>(layer, p1).
        case layer of
          None \<Rightarrow> Inr ([], p1)
        | Some l \<Rightarrow>
            bind (type p1 l) (\<lambda>t.
            if t \<noteq> 0 then Inr ([], p1)
            else bind (fields_of p1 l) (\<lambda>fs. Inr (fs, p1)))))
       ([], p)"

fun filter_loop :: "project \<Rightarrow> string \<Rightarrow> qvalue \<Rightarrow> feature list \<Rightarrow> feature list \<Rightarrow> exn + feature list" where
  \<comment> \<open>\<open>for feature in ...: if feature.attribute(attribute) == value: append\<close>\<close>
  "filter_loop p a v [] matching_features = Inr matching_features"
| "filter_loop p a v (f # fs) matching_features =
     (case attribute p f a of
        Inl e \<Rightarrow> Inl e
      | Inr x \<Rightarrow>
          filter_loop p a v fs
            (if x = v then matching_features @ [f] else matching_features))"

definition filter_features :: "string \<Rightarrow> string \<Rightarrow> qvalue \<Rightarrow> project \<Rightarrow> feature list \<times> project" where
  "filter_features layer_name a v p =
     try_except
       (bind (get_layer_by_name layer_name p) (\<lambda>(layer, p1).
        case layer of
          None \<Rightarrow> Inr ([], p1)
        | Some l \<Rightarrow>
            bind (type p1 l) (\<lambda>t.
            if t \<noteq> 0 then Inr ([], p1)
            else bind (getFeatures p1 l) (\<lambda>fs.
                 bind (filter_loop p1 a v fs []) (\<lambda>matching_features.
                 Inr (matching_features, p1))))))
       ([], p)"

definition select_features :: "string \<Rightarrow> int list \<Rightarrow> project \<Rightarrow> bool \<times> project" where
  "select_features layer_name feature_ids p =
     try_except
       (bind (get_layer_by_name layer_name p) (\<lambda>(layer, p1).
        case layer of
          None \<Rightarrow> Inr (False, p1)
        | Some l \<Rightarrow>
            bind (type p1 l) (\<lambda>t.
            if t \<noteq> 0 then Inr (False, p1)
            else bind (selectByIds p1 l feature_ids) (\<lambda>p2. Inr (True, p2)))))
       (False, p)"

definition clear_selection :: "string \<Rightarrow> project \<Rightarrow> bool \<times> project" where
  "clear_selection layer_name p =
     try_except
       (bind (get_layer_by_name layer_name p) (\<lambda>(layer, p1).
        case layer of
          None \<Rightarrow> Inr (False, p1)
        | Some l \<Rightarrow>
            bind (type p1 l) (\<lambda>t.
            if t \<noteq> 0 then Inr (False, p1)
            else bind (removeSelection p1 l) (\<lambda>p2. Inr (True, p2)))))
       (False, p)"

definition export_vector_layer :: "string \<Rightarrow> string \<Rightarrow> string \<Rightarrow> project \<Rightarrow> bool \<times> project" where
  "export_vector_layer layer_name output_path driver_name p =
     try_except
       (bind (get_layer_by_name layer_name p) (\<lambda>(layer, p1).
        case layer of
          None \<Rightarrow> Inr (False, p1)
        | Some l \<Rightarrow>
            bind (type p1 l) (\<lambda>t.
            if t \<noteq> 0 then Inr (False, p1)
            else bind (crs_of p1 l) (\<lambda>c.
                 bind (writeAsVectorFormat p1 l output_path ''utf-8'' c driver_name) (\<lambda>error.
                 if error = NoError then Inr (True, p1) else Inr (False, p1))))))
       (False, p)"

subsection \<open>An example project\<close>

text \<open>
  A project with a raster layer and two vector layers that share the name \<open>roads\<close>, a
  readable shapefile and a readable raster file; and the same project with a project
  store whose \<open>mapLayers\<close> call raises.
\<close>

definition dem_layer :: layer where
  "dem_layer = \<lparr>lid = 1, lname = ''dem'', kind = Raster, crs = ''EPSG:4326'', valid = True,
                 lfields = [], rows = [], selection = []\<rparr>"

definition roads_layer :: layer where
  "roads_layer = \<lparr>lid = 2, lname = ''roads'', kind = Vector, crs = ''EPSG:4326'', valid = True,
                   lfields = [''ref'', ''lanes''],
                   rows = [\<lparr>row_id = 1, row_values = [QStr ''A1'', QInt 2]\<rparr>,
                           \<lparr>row_id = 2, row_values = [QStr ''B7'', QInt 1]\<rparr>,
                           \<lparr>row_id = 3, row_values = [QStr ''A2'', QInt 2]\<rparr>],
                   selection = []\<rparr>"

definition roads_copy :: layer where
  "roads_copy = \<lparr>lid = 3, lname = ''roads'', kind = Vector, crs = ''EPSG:3857'', valid = True,
                  lfields = [''ref''], rows = [], selection = []\<rparr>"

definition demo_project :: project where
  "demo_project =
     \<lparr>layers = [dem_layer, roads_layer, roads_copy],
      faulty = {},
      vector_sources = (\<lambda>path. if path = ''/data/roads.shp''
                               then Some \<lparr>src_crs = ''EPSG:4326'', src_fields = [''ref''],
                                          src_rows = [\<lparr>row_id = 1, row_values = [QStr ''A1'']\<rparr>]\<rparr>
                               else None),
      raster_sources = (\<lambda>path. if path = ''/data/dem.tif'' then Some ''EPSG:4326'' else None),
      codec = (\<lambda>l output_path encoding c driver_name. 0)\<rparr>"

definition broken_project :: project where
  "broken_project = demo_project\<lparr>faulty := {MapLayers}\<rparr>"

text \<open>The example project with one layer named \<open>roads\<close> only.\<close>

definition roads_only :: project where
  "roads_only = demo_project\<lparr>layers := [dem_layer, roads_layer]\<rparr>"

subsection \<open>The derived layer name in the words of the specification\<close>

text \<open>
  The base name of a path is what follows its last slash. The final extension of a base
  name starts at its last dot, when a character other than a dot stands before that dot
  (a name made of leading dots and letters, like a hidden file, has no extension); the
  name without its extension is the rest.
\<close>

definition base_name :: "string \<Rightarrow> string" where
  "base_name p = rev (takeWhile (\<lambda>c. c \<noteq> CHR ''/'') (rev p))"

definition final_extension :: "string \<Rightarrow> string" where
  "final_extension b =
     (let after_dot = rev (takeWhile (\<lambda>c. c \<noteq> CHR ''.'') (rev b));
          stem = take (length b - length after_dot - 1) b
      in if CHR ''.'' \<in> set b \<and> (\<exists>c\<in>set stem. c \<noteq> CHR ''.'') then CHR ''.'' # after_dot else [])"

definition without_extension :: "string \<Rightarrow> string" where
  "without_extension b = take (length b - length (final_extension b)) b"

section \<open>Properties\<close>

subsection \<open>Exceptions and toolkit calls\<close>

lemma bind_Inl: "bind (Inl e) f = Inl e"
  by (simp add: bind_def)

lemma bind_Inr: "bind (Inr x) f = f x"
  by (simp add: bind_def)

lemma invoke_ok: "c \<notin> faulty p \<Longrightarrow> invoke p c v = Inr v"
  by (simp add: invoke_def)

lemma invoke_raises: "c \<in> faulty p \<Longrightarrow> invoke p c v = Inl (RuntimeError c)"
  by (simp add: invoke_def)

lemmas demo_defs = demo_project_def dem_layer_def roads_layer_def roads_copy_def

subsection \<open>Lookup by name\<close>

lemma find_layer_find:
  "\<forall>x\<in>set ls. LayerName (lid x) \<notin> faulty p \<Longrightarrow>
   find_layer p n ls = Inr (find (\<lambda>l. lname l = n) ls)"
  by (induction ls) (simp_all add: name_def invoke_def)

lemma find_first:
  "lname l = n \<Longrightarrow> \<forall>x\<in>set pre. lname x \<noteq> n \<Longrightarrow>
   find (\<lambda>l. lname l = n) (pre @ l # post) = Some l"
  by (induction pre) simp_all

lemma find_absent:
  "\<forall>x\<in>set ls. lname x \<noteq> n \<Longrightarrow> find (\<lambda>l. lname l = n) ls = None"
  by (induction ls) simp_all

lemma get_layer_by_name_find:
  assumes "MapLayers \<notin> faulty p" and "\<forall>x\<in>set (layers p). LayerName (lid x) \<notin> faulty p"
  shows "get_layer_by_name n p = Inr (find (\<lambda>l. lname l = n) (layers p), p)"
  using assms
  by (simp add: get_layer_by_name_def mapLayers_def invoke_ok bind_Inr find_layer_find comp_def)

text \<open>
  Claim C1. When the project store and the layers answer, \<open>get_layer_by_name\<close> returns
  the first layer, in the iteration order of the layer mapping, whose name is the queried
  one: the layer \<open>l\<close> of any split \<open>pre @ l # post\<close> of the layers where \<open>l\<close> has the name
  and no layer of \<open>pre\<close> has it, whatever \<open>post\<close> holds, so a second layer of that name is
  not an error. It returns \<open>None\<close> when no layer has the name. The project comes back
  unchanged, so every call gives the same answer.
\<close>

theorem get_layer_by_name_first_match:
  assumes "MapLayers \<notin> faulty p"
    and "\<forall>x\<in>set (layers p). LayerName (lid x) \<notin> faulty p"
  shows "(\<forall>pre l post. layers p = pre @ l # post \<and> lname l = n \<and> (\<forall>x\<in>set pre. lname x \<noteq> n)
            \<longrightarrow> get_layer_by_name n p = Inr (Some l, p))
       \<and> ((\<forall>x\<in>set (layers p). lname x \<noteq> n) \<longrightarrow> get_layer_by_name n p = Inr (None, p))"
  using assms by (auto simp: get_layer_by_name_find find_first find_absent)

theorem get_layer_by_name_first_match_witness:
  "get_layer_by_name ''roads'' demo_project = Inr (Some roads_layer, demo_project)
   \<and> get_layer_by_name ''rivers'' demo_project = Inr (None, demo_project)"
proof -
  have ok: "MapLayers \<notin> faulty demo_project"
    "\<forall>x\<in>set (layers demo_project). LayerName (lid x) \<notin> faulty demo_project"
    by (simp_all add: demo_project_def)
  have shape: "layers demo_project = [dem_layer] @ roads_layer # [roads_copy]"
    by (simp add: demo_project_def)
  have first: "lname roads_layer = ''roads''" "\<forall>x\<in>set [dem_layer]. lname x \<noteq> ''roads''"
    by (simp_all add: roads_layer_def dem_layer_def)
  have none: "\<forall>x\<in>set (layers demo_project). lname x \<noteq> ''rivers''"
    by (simp add: demo_defs)
  from get_layer_by_name_first_match [OF ok, of "''roads''"] shape first
  have "get_layer_by_name ''roads'' demo_project = Inr (Some roads_layer, demo_project)"
    by blast
  moreover from get_layer_by_name_first_match [OF ok, of "''rivers''"] none
  have "get_layer_by_name ''rivers'' demo_project = Inr (None, demo_project)"
    by blast
  ultimately show ?thesis by simp
qed

subsection \<open>The guard of the operations on Vector layers\<close>

text \<open>
  Claim C2. When the name resolves to no layer, or to a Raster layer, each of the six
  operations that need a Vector layer returns its failure value, the empty list or
  \<open>False\<close>, and leaves the project as it was; no exception leaves the operation,
  whichever toolkit calls raise.
\<close>

theorem vector_operations_reject:
  assumes "get_layer_by_name n p = Inr (None, p)
           \<or> (\<exists>l. get_layer_by_name n p = Inr (Some l, p) \<and> kind l = Raster)"
  shows "get_layer_features n limit p = ([], p)
       \<and> get_layer_attributes n p = ([], p)
       \<and> filter_features n a v p = ([], p)
       \<and> select_features n ids p = (False, p)
       \<and> clear_selection n p = (False, p)
       \<and> export_vector_layer n output_path driver_name p = (False, p)"
  using assms
  by (auto simp: get_layer_features_def get_layer_attributes_def filter_features_def
      select_features_def clear_selection_def export_vector_layer_def
      bind_def try_except_def type_def invoke_def)

theorem vector_operations_reject_witness:
  "get_layer_features ''dem'' (Some 5) demo_project = ([], demo_project)
   \<and> get_layer_attributes ''dem'' demo_project = ([], demo_project)
   \<and> filter_features ''dem'' ''ref'' (QStr ''A1'') demo_project = ([], demo_project)
   \<and> select_features ''dem'' [1, 2] demo_project = (False, demo_project)
   \<and> clear_selection ''dem'' demo_project = (False, demo_project)
   \<and> export_vector_layer ''dem'' ''/tmp/out.shp'' ''ESRI Shapefile'' demo_project
       = (False, demo_project)"
proof -
  have "get_layer_by_name ''dem'' demo_project = Inr (Some dem_layer, demo_project)"
    by (simp add: get_layer_by_name_def mapLayers_def invoke_def bind_def name_def demo_defs)
  moreover have "kind dem_layer = Raster"
    by (simp add: dem_layer_def)
  ultimately have "get_layer_by_name ''dem'' demo_project = Inr (None, demo_project)
       \<or> (\<exists>l. get_layer_by_name ''dem'' demo_project = Inr (Some l, demo_project)
               \<and> kind l = Raster)"
    by blast
  from vector_operations_reject [OF this] show ?thesis .
qed

subsection \<open>Exceptions at the boundary of the class\<close>

text \<open>
  Claim C3. The methods with a \<open>try\<close> block return a value whatever the toolkit does:
  their result type has no exception. \<open>get_layer_by_name\<close> and \<open>list_layers\<close> have no
  \<open>try\<close> block. On a project store whose \<open>mapLayers\<close> call raises, both raise the
  toolkit's exception to their caller, while \<open>remove_layer\<close>, which calls
  \<open>get_layer_by_name\<close> inside its \<open>try\<close> block, returns \<open>False\<close>.
\<close>

theorem unguarded_methods_propagate:
  "get_layer_by_name ''roads'' broken_project = Inl (RuntimeError MapLayers)
   \<and> list_layers broken_project = Inl (RuntimeError MapLayers)
   \<and> remove_layer ''roads'' broken_project = (False, broken_project)"
  by (simp add: get_layer_by_name_def list_layers_def remove_layer_def mapLayers_def
      invoke_def bind_def try_except_def broken_project_def)

subsection \<open>Reading features with a limit\<close>

lemma features_loop_no_limit: "features_loop None i fs acc = acc @ fs"
  by (induction fs arbitrary: i acc) simp_all

lemma features_loop_zero: "features_loop (Some 0) i fs acc = acc @ fs"
  by (induction fs arbitrary: i acc) simp_all

lemma features_loop_positive:
  "0 < n \<Longrightarrow> features_loop (Some n) i fs acc = acc @ take (nat (n - i)) fs"
proof (induction fs arbitrary: i acc)
  case Nil
  then show ?case by simp
next
  case (Cons f fs)
  show ?case
  proof (cases "n \<le> i")
    case True
    with Cons.prems show ?thesis by simp
  next
    case False
    then have "nat (n - i) = Suc (nat (n - (i + 1)))" by simp
    with False Cons show ?thesis by simp
  qed
qed

lemma features_loop_negative:
  "n < 0 \<Longrightarrow> 0 \<le> i \<Longrightarrow> features_loop (Some n) i fs acc = acc"
  by (cases fs) simp_all

lemma get_layer_features_vector:
  assumes "get_layer_by_name n p = Inr (Some l, p)" and "kind l = Vector"
    and "LayerType (lid l) \<notin> faulty p" and "GetFeatures (lid l) \<notin> faulty p"
  shows "get_layer_features n limit p =
     (features_loop limit 0 (map (feature_of l) (rows l)) [], p)"
  using assms
  by (simp add: get_layer_features_def bind_def try_except_def type_def getFeatures_def invoke_def)

lemma get_layer_features_prefix:
  assumes "get_layer_by_name n p = Inr (Some l, p)" and "kind l = Vector"
    and "LayerType (lid l) \<notin> faulty p" and "GetFeatures (lid l) \<notin> faulty p"
  shows "get_layer_features n None p = (map (feature_of l) (rows l), p)"
    and "0 < k \<Longrightarrow> get_layer_features n (Some k) p = (take (nat k) (map (feature_of l) (rows l)), p)"
    and "get_layer_features n (Some 0) p = (map (feature_of l) (rows l), p)"
    and "k < 0 \<Longrightarrow> get_layer_features n (Some k) p = ([], p)"
  using assms
  by (simp_all add: get_layer_features_vector features_loop_no_limit features_loop_positive
      features_loop_zero features_loop_negative)

text \<open>
  Claim C4. The docstring of \<open>get_layer_features\<close> calls \<open>limit\<close> the maximum number of
  features to retrieve, and for a positive limit the method returns that prefix
  (\<open>get_layer_features_prefix\<close>). The loop tests \<open>if limit and i >= limit\<close>, and \<open>0\<close> is
  false there: with \<open>limit = 0\<close> on the layer \<open>roads\<close> of the example project, which has
  three features, the method returns all three where at most zero were asked for.
\<close>

theorem limit_zero_returns_all:
  "fst (get_layer_features ''roads'' (Some 0) demo_project) = map (feature_of roads_layer) (rows roads_layer)
   \<and> length (fst (get_layer_features ''roads'' (Some 0) demo_project)) = 3"
  by (simp add: get_layer_features_def get_layer_by_name_def mapLayers_def name_def type_def
      getFeatures_def invoke_def bind_def try_except_def demo_defs)

subsection \<open>Filtering features by an attribute value\<close>

lemma filter_loop_values:
  "\<forall>f\<in>set fs. \<exists>x. attribute p f a = Inr x \<Longrightarrow>
   filter_loop p a v fs acc = Inr (acc @ filter (\<lambda>f. attribute p f a = Inr v) fs)"
  by (induction fs arbitrary: acc) auto

lemma filter_loop_KeyError:
  "field_value f a = None \<Longrightarrow> filter_loop p a v (f # fs) acc = Inl KeyError"
  by (simp add: attribute_def)

lemma field_value_feature_of:
  "field_value (feature_of l r) a = None \<longleftrightarrow> index_of a (lfields l) = None"
  by (simp add: field_value_def feature_of_def split: option.splits)

lemma filter_features_vector:
  assumes "get_layer_by_name n p = Inr (Some l, p)" and "kind l = Vector"
    and "LayerType (lid l) \<notin> faulty p" and "GetFeatures (lid l) \<notin> faulty p"
    and "\<forall>r\<in>set (rows l). FeatureAttribute (row_id r) \<notin> faulty p"
  shows "filter_features n a v p =
     (filter (\<lambda>f. field_value f a = Some v) (map (feature_of l) (rows l)), p)"
proof (cases "index_of a (lfields l)")
  case None
  then have none: "\<And>r. field_value (feature_of l r) a = None"
    by (simp add: field_value_feature_of)
  then have empty: "filter (\<lambda>f. field_value f a = Some v) (map (feature_of l) (rows l)) = []"
    by (simp add: filter_empty_conv)
  have "filter_loop p a v (map (feature_of l) (rows l)) [] = Inr []
        \<or> filter_loop p a v (map (feature_of l) (rows l)) [] = Inl KeyError"
    by (cases "rows l") (simp_all add: attribute_def none)
  with assms empty show ?thesis
    by (auto simp: filter_features_def bind_def try_except_def type_def getFeatures_def invoke_def)
next
  case (Some i)
  have att: "\<forall>f\<in>set (map (feature_of l) (rows l)).
      attribute p f a = (case field_value f a of None \<Rightarrow> Inl KeyError | Some x \<Rightarrow> Inr x)"
    using assms(5) by (auto simp: attribute_def invoke_def feature_of_def split: option.splits)
  have some: "\<forall>f\<in>set (map (feature_of l) (rows l)). \<exists>x. field_value f a = Some x"
    using Some by (auto simp: field_value_def feature_of_def)
  from att some have ok: "\<forall>f\<in>set (map (feature_of l) (rows l)). \<exists>x. attribute p f a = Inr x"
    by fastforce
  have "filter (\<lambda>f. attribute p f a = Inr v) (map (feature_of l) (rows l))
        = filter (\<lambda>f. field_value f a = Some v) (map (feature_of l) (rows l))"
    using att some by (intro filter_cong refl) fastforce
  with filter_loop_values [OF ok, of v "[]"] assms show ?thesis
    by (simp add: filter_features_def bind_def try_except_def type_def getFeatures_def invoke_def)
qed

lemma filter_features_state: "snd (filter_features n a v p) = p"
  by (auto simp: filter_features_def bind_def try_except_def get_layer_by_name_def
      split: sum.splits option.splits prod.splits)

text \<open>
  Claim C5. For a name that resolves to a layer whose toolkit calls answer:
  on a Vector layer \<open>filter_features\<close> returns exactly the features of the layer, in their
  order, whose field \<open>a\<close> has the value \<open>v\<close>; on a Raster layer it returns the empty list;
  and it leaves the project as it was, so calling it again on the project it returns
  gives the same result.
\<close>

theorem filter_features_exact:
  assumes "get_layer_by_name n p = Inr (Some l, p)"
    and "LayerType (lid l) \<notin> faulty p" and "GetFeatures (lid l) \<notin> faulty p"
    and "\<forall>r\<in>set (rows l). FeatureAttribute (row_id r) \<notin> faulty p"
  shows "(kind l = Vector \<longrightarrow> filter_features n a v p =
            (filter (\<lambda>f. field_value f a = Some v) (map (feature_of l) (rows l)), p))
       \<and> (kind l = Raster \<longrightarrow> filter_features n a v p = ([], p))
       \<and> filter_features n a v (snd (filter_features n a v p)) = filter_features n a v p"
proof (intro conjI impI)
  assume "kind l = Vector"
  with assms show "filter_features n a v p =
      (filter (\<lambda>f. field_value f a = Some v) (map (feature_of l) (rows l)), p)"
    by (rule_tac filter_features_vector)
next
  assume "kind l = Raster"
  with assms(1) show "filter_features n a v p = ([], p)"
    by (simp add: filter_features_def bind_def try_except_def type_def invoke_def)
next
  show "filter_features n a v (snd (filter_features n a v p)) = filter_features n a v p"
    by (simp add: filter_features_state)
qed

lemma get_demo_roads:
  "get_layer_by_name ''roads'' demo_project = Inr (Some roads_layer, demo_project)"
  by (simp add: get_layer_by_name_def mapLayers_def invoke_def bind_def name_def demo_defs)

lemma get_demo_dem:
  "get_layer_by_name ''dem'' demo_project = Inr (Some dem_layer, demo_project)"
  by (simp add: get_layer_by_name_def mapLayers_def invoke_def bind_def name_def demo_defs)

theorem filter_features_exact_witness:
  "filter_features ''roads'' ''lanes'' (QInt 2) demo_project =
     ([\<lparr>fid = 1, ffields = [''ref'', ''lanes''], fattrs = [QStr ''A1'', QInt 2]\<rparr>,
       \<lparr>fid = 3, ffields = [''ref'', ''lanes''], fattrs = [QStr ''A2'', QInt 2]\<rparr>], demo_project)
   \<and> filter_features ''dem'' ''lanes'' (QInt 2) demo_project = ([], demo_project)"
proof -
  have quiet: "faulty demo_project = {}"
    by (simp add: demo_project_def)
  have "filter_features ''roads'' ''lanes'' (QInt 2) demo_project =
      (filter (\<lambda>f. field_value f ''lanes'' = Some (QInt 2))
         (map (feature_of roads_layer) (rows roads_layer)), demo_project)"
    using filter_features_exact [OF get_demo_roads, of "''lanes''" "QInt 2"] quiet
    by (simp add: roads_layer_def)
  moreover have "filter_features ''dem'' ''lanes'' (QInt 2) demo_project = ([], demo_project)"
    using filter_features_exact [OF get_demo_dem, of "''lanes''" "QInt 2"] quiet
    by (simp add: dem_layer_def)
  ultimately show ?thesis
    by (simp add: roads_layer_def feature_of_def field_value_def)
qed

subsection \<open>Selecting and clearing\<close>

lemma get_layer_by_name_quiet:
  "faulty p = {} \<Longrightarrow> get_layer_by_name n p = Inr (find (\<lambda>l. lname l = n) (layers p), p)"
  by (simp add: get_layer_by_name_find)

lemma find_map_selection:
  "find (\<lambda>x. lname x = n) (map (\<lambda>x. if lid x = i then x\<lparr>selection := s\<rparr> else x) ls)
   = map_option (\<lambda>x. if lid x = i then x\<lparr>selection := s\<rparr> else x) (find (\<lambda>x. lname x = n) ls)"
  by (induction ls) simp_all

lemma select_features_vector:
  assumes "faulty p = {}" and "get_layer_by_name n p = Inr (Some l, p)" and "kind l = Vector"
  shows "select_features n ids p = (True, update_layer (lid l) (\<lambda>x. x\<lparr>selection := ids\<rparr>) p)"
  using assms
  by (simp add: select_features_def bind_def try_except_def type_def selectByIds_def invoke_def)

lemma clear_selection_vector:
  assumes "faulty p = {}" and "get_layer_by_name n p = Inr (Some l, p)" and "kind l = Vector"
  shows "clear_selection n p = (True, update_layer (lid l) (\<lambda>x. x\<lparr>selection := []\<rparr>) p)"
  using assms
  by (simp add: clear_selection_def bind_def try_except_def type_def removeSelection_def invoke_def)

lemma get_layer_by_name_update:
  assumes "faulty p = {}" and "get_layer_by_name n p = Inr (Some l, p)"
  shows "get_layer_by_name n (update_layer (lid l) (\<lambda>x. x\<lparr>selection := s\<rparr>) p)
         = Inr (Some (l\<lparr>selection := s\<rparr>), update_layer (lid l) (\<lambda>x. x\<lparr>selection := s\<rparr>) p)"
proof -
  from assms have "find (\<lambda>x. lname x = n) (layers p) = Some l"
    by (simp add: get_layer_by_name_quiet)
  moreover have "faulty (update_layer (lid l) (\<lambda>x. x\<lparr>selection := s\<rparr>) p) = {}"
    using assms(1) by (simp add: update_layer_def)
  ultimately show ?thesis
    by (simp add: get_layer_by_name_quiet find_map_selection) (simp add: update_layer_def find_map_selection)
qed

text \<open>
  Claim C6. When the toolkit raises nothing and the name resolves to a Vector layer,
  \<open>select_features\<close> with any list of ids followed by \<open>clear_selection\<close> both succeed,
  and afterwards the layer of that id has an empty selection: the name still resolves
  to it, and every layer of the project with its id has no selected feature.
\<close>

theorem select_then_clear_empty:
  assumes "faulty p = {}" and "get_layer_by_name n p = Inr (Some l, p)" and "kind l = Vector"
  shows "\<exists>p1 p2 l2. select_features n ids p = (True, p1)
           \<and> clear_selection n p1 = (True, p2)
           \<and> get_layer_by_name n p2 = Inr (Some l2, p2)
           \<and> lid l2 = lid l \<and> selection l2 = []
           \<and> (\<forall>x\<in>set (layers p2). lid x = lid l \<longrightarrow> selection x = [])"
proof -
  let ?p1 = "update_layer (lid l) (\<lambda>x. x\<lparr>selection := ids\<rparr>) p"
  let ?l1 = "l\<lparr>selection := ids\<rparr>"
  let ?p2 = "update_layer (lid l) (\<lambda>x. x\<lparr>selection := []\<rparr>) ?p1"
  have s: "select_features n ids p = (True, ?p1)"
    using assms by (rule select_features_vector)
  have q1: "faulty ?p1 = {}"
    using assms(1) by (simp add: update_layer_def)
  have g1: "get_layer_by_name n ?p1 = Inr (Some ?l1, ?p1)"
    using assms(1,2) by (rule get_layer_by_name_update)
  have "clear_selection n ?p1 = (True, update_layer (lid ?l1) (\<lambda>x. x\<lparr>selection := []\<rparr>) ?p1)"
    using q1 g1 assms(3) by (intro clear_selection_vector) simp_all
  then have c: "clear_selection n ?p1 = (True, ?p2)" by simp
  have "get_layer_by_name n (update_layer (lid ?l1) (\<lambda>x. x\<lparr>selection := []\<rparr>) ?p1)
        = Inr (Some (?l1\<lparr>selection := []\<rparr>), update_layer (lid ?l1) (\<lambda>x. x\<lparr>selection := []\<rparr>) ?p1)"
    using q1 g1 by (rule get_layer_by_name_update)
  then have g2: "get_layer_by_name n ?p2 = Inr (Some (l\<lparr>selection := []\<rparr>), ?p2)" by simp
  have e: "\<forall>x\<in>set (layers ?p2). lid x = lid l \<longrightarrow> selection x = []"
    by (auto simp: update_layer_def)
  from s c g2 e show ?thesis by auto
qed

theorem select_then_clear_empty_witness:
  "\<exists>p1 p2 l2. select_features ''roads'' [1, 3] demo_project = (True, p1)
           \<and> clear_selection ''roads'' p1 = (True, p2)
           \<and> get_layer_by_name ''roads'' p2 = Inr (Some l2, p2)
           \<and> lid l2 = 2 \<and> selection l2 = []
           \<and> (\<forall>x\<in>set (layers p2). lid x = 2 \<longrightarrow> selection x = [])"
proof -
  have "faulty demo_project = {}" by (simp add: demo_project_def)
  moreover have "kind roads_layer = Vector" by (simp add: roads_layer_def)
  ultimately show ?thesis
    using select_then_clear_empty [OF _ get_demo_roads, of "[1, 3]"]
    by (simp add: roads_layer_def)
qed

subsection \<open>Removing a layer\<close>

lemma find_filter_other:
  "\<forall>x\<in>set ls. lname x = n \<longrightarrow> lid x = i \<Longrightarrow>
   find (\<lambda>x. lname x = n) (filter (\<lambda>x. lid x \<noteq> i) ls) = None"
  by (induction ls) auto

lemma remove_layer_unresolved:
  "get_layer_by_name n p = Inr (None, p) \<Longrightarrow> remove_layer n p = (False, p)"
  by (simp add: remove_layer_def bind_def try_except_def)

lemma remove_layer_resolved:
  assumes "faulty p = {}" and "get_layer_by_name n p = Inr (Some l, p)"
  shows "remove_layer n p = (True, p\<lparr>layers := filter (\<lambda>x. lid x \<noteq> lid l) (layers p)\<rparr>)"
  using assms
  by (simp add: remove_layer_def bind_def try_except_def id_of_def removeMapLayer_def invoke_def)

text \<open>
  Claim C7. When the toolkit raises nothing, \<open>remove_layer\<close> returns \<open>False\<close> and leaves
  the project as it was when the name resolves to no layer; when it resolves to a layer
  it returns \<open>True\<close> and the layers of that layer's id are gone from the project. If the
  resolved layer is the only one of that name, then in the project after the removal the
  name resolves to no layer and removing it again returns \<open>False\<close>.
\<close>

theorem remove_layer_by_name:
  assumes "faulty p = {}"
  shows "(get_layer_by_name n p = Inr (None, p) \<longrightarrow> remove_layer n p = (False, p))
       \<and> (\<forall>l. get_layer_by_name n p = Inr (Some l, p) \<longrightarrow>
             remove_layer n p = (True, p\<lparr>layers := filter (\<lambda>x. lid x \<noteq> lid l) (layers p)\<rparr>))
       \<and> (\<forall>l p'. get_layer_by_name n p = Inr (Some l, p)
                \<and> (\<forall>x\<in>set (layers p). lname x = n \<longrightarrow> lid x = lid l)
                \<and> p' = snd (remove_layer n p) \<longrightarrow>
             get_layer_by_name n p' = Inr (None, p') \<and> remove_layer n p' = (False, p'))"
proof (intro conjI allI impI)
  assume "get_layer_by_name n p = Inr (None, p)"
  then show "remove_layer n p = (False, p)" by (rule remove_layer_unresolved)
next
  fix l assume "get_layer_by_name n p = Inr (Some l, p)"
  with assms show "remove_layer n p = (True, p\<lparr>layers := filter (\<lambda>x. lid x \<noteq> lid l) (layers p)\<rparr>)"
    by (rule remove_layer_resolved)
next
  fix l p'
  assume a: "get_layer_by_name n p = Inr (Some l, p)
     \<and> (\<forall>x\<in>set (layers p). lname x = n \<longrightarrow> lid x = lid l) \<and> p' = snd (remove_layer n p)"
  from a have g0: "get_layer_by_name n p = Inr (Some l, p)" by (elim conjE)
  from a have only: "\<forall>x\<in>set (layers p). lname x = n \<longrightarrow> lid x = lid l" by (elim conjE)
  from a have pe: "p' = snd (remove_layer n p)" by (elim conjE)
  have p': "p' = p\<lparr>layers := filter (\<lambda>x. lid x \<noteq> lid l) (layers p)\<rparr>"
    unfolding pe remove_layer_resolved [OF assms g0] by simp
  have quiet: "faulty p' = {}"
    unfolding p' using assms by simp
  have lay: "layers p' = filter (\<lambda>x. lid x \<noteq> lid l) (layers p)"
    unfolding p' by simp
  have "find (\<lambda>x. lname x = n) (layers p') = None"
    unfolding lay using only by (rule find_filter_other)
  with quiet have g: "get_layer_by_name n p' = Inr (None, p')"
    by (simp add: get_layer_by_name_quiet)
  then show "get_layer_by_name n p' = Inr (None, p')" .
  from g show "remove_layer n p' = (False, p')" by (rule remove_layer_unresolved)
qed

theorem remove_layer_by_name_witness:
  "remove_layer ''rivers'' roads_only = (False, roads_only)
   \<and> remove_layer ''roads'' roads_only = (True, roads_only\<lparr>layers := [dem_layer]\<rparr>)
   \<and> get_layer_by_name ''roads'' (roads_only\<lparr>layers := [dem_layer]\<rparr>)
       = Inr (None, roads_only\<lparr>layers := [dem_layer]\<rparr>)
   \<and> remove_layer ''roads'' (roads_only\<lparr>layers := [dem_layer]\<rparr>)
       = (False, roads_only\<lparr>layers := [dem_layer]\<rparr>)"
proof -
  have quiet: "faulty roads_only = {}"
    by (simp add: roads_only_def demo_project_def)
  have absent: "get_layer_by_name ''rivers'' roads_only = Inr (None, roads_only)"
    by (simp add: get_layer_by_name_def mapLayers_def invoke_def bind_def name_def
        roads_only_def demo_defs)
  have found: "get_layer_by_name ''roads'' roads_only = Inr (Some roads_layer, roads_only)"
    by (simp add: get_layer_by_name_def mapLayers_def invoke_def bind_def name_def
        roads_only_def demo_defs)
  have only: "\<forall>x\<in>set (layers roads_only). lname x = ''roads'' \<longrightarrow> lid x = lid roads_layer"
    by (simp add: roads_only_def demo_defs)
  have rest: "filter (\<lambda>x. lid x \<noteq> lid roads_layer) (layers roads_only) = [dem_layer]"
    by (simp add: roads_only_def demo_defs)
  note spec = remove_layer_by_name [OF quiet]
  from spec [of "''rivers''"] absent
  have 1: "remove_layer ''rivers'' roads_only = (False, roads_only)" by blast
  from spec [of "''roads''"] found
  have "remove_layer ''roads'' roads_only =
      (True, roads_only\<lparr>layers := filter (\<lambda>x. lid x \<noteq> lid roads_layer) (layers roads_only)\<rparr>)"
    by blast
  then have 2: "remove_layer ''roads'' roads_only = (True, roads_only\<lparr>layers := [dem_layer]\<rparr>)"
    by (simp add: rest)
  then have "roads_only\<lparr>layers := [dem_layer]\<rparr> = snd (remove_layer ''roads'' roads_only)"
    by simp
  with spec [of "''roads''"] found only
  have 3: "get_layer_by_name ''roads'' (roads_only\<lparr>layers := [dem_layer]\<rparr>)
       = Inr (None, roads_only\<lparr>layers := [dem_layer]\<rparr>)
     \<and> remove_layer ''roads'' (roads_only\<lparr>layers := [dem_layer]\<rparr>)
       = (False, roads_only\<lparr>layers := [dem_layer]\<rparr>)"
    by blast
  from 1 2 3 show ?thesis by simp
qed

subsection \<open>Adding a layer\<close>

lemma fold_max_ge: "(a::nat) \<le> fold max xs a"
proof (induction xs arbitrary: a)
  case Nil
  show ?case by simp
next
  case (Cons y ys)
  have "a \<le> max y a" by simp
  also have "\<dots> \<le> fold max ys (max y a)" by (rule Cons.IH)
  finally show ?case by simp
qed

lemma fold_max_mem: "(x::nat) \<in> set xs \<Longrightarrow> x \<le> fold max xs a"
proof (induction xs arbitrary: a)
  case Nil
  then show ?case by simp
next
  case (Cons y ys)
  show ?case
  proof (cases "x = y")
    case True
    have "y \<le> max y a" by simp
    also have "\<dots> \<le> fold max ys (max y a)" by (rule fold_max_ge)
    finally show ?thesis using True by simp
  next
    case False
    with Cons show ?thesis by simp
  qed
qed

lemma fresh_id_fresh: "x \<in> set ls \<Longrightarrow> lid x < fresh_id ls"
  using fold_max_mem [of "lid x" "map lid ls" 0] by (simp add: fresh_id_def)

lemma map_of_registered:
  assumes "\<forall>x\<in>set ls. lid x \<noteq> lid l"
  shows "map_of (map (\<lambda>x. (lid x, x)) (ls @ [l])) (lid l) = Some l"
proof -
  have "map_of (map (\<lambda>x. (lid x, x)) ls) (lid l) = None"
    using assms by (auto simp: map_of_eq_None_iff)
  then show ?thesis by (simp add: map_add_def)
qed

text \<open>
  Claim C8. When the toolkit raises nothing, \<open>add_vector_layer\<close> has the constructor build
  a Vector layer from the path. If the source cannot be read, so that the layer is
  reported invalid, the method returns \<open>None\<close> and the project is as before. Otherwise
  it returns the constructed layer, which is valid, has been appended to the layers of
  the project, and is what the layer mapping of the new project holds under its id.
\<close>

theorem add_vector_layer_registers:
  assumes "faulty p = {}"
  shows "(vector_sources p file_path = None \<longrightarrow> add_vector_layer file_path layer_name p = (None, p))
       \<and> (\<forall>s. vector_sources p file_path = Some s \<longrightarrow>
            (\<exists>l p' m. add_vector_layer file_path layer_name p = (Some l, p')
               \<and> QgsVectorLayer p file_path
                    (name_or layer_name (fst (splitext (basename file_path)))) = Inr l
               \<and> kind l = Vector \<and> valid l
               \<and> layers p' = layers p @ [l]
               \<and> mapLayers p' = Inr m \<and> map_of m (lid l) = Some l))"
proof (intro conjI allI impI)
  assume "vector_sources p file_path = None"
  with assms show "add_vector_layer file_path layer_name p = (None, p)"
    by (simp add: add_vector_layer_def QgsVectorLayer_def isValid_def invoke_def bind_def
        try_except_def)
next
  fix s assume s: "vector_sources p file_path = Some s"
  define nm where "nm = name_or layer_name (fst (splitext (basename file_path)))"
  define l where "l = \<lparr>lid = fresh_id (layers p), lname = nm, kind = Vector, crs = src_crs s,
      valid = True, lfields = src_fields s, rows = src_rows s, selection = []\<rparr>"
  define p' where "p' = p\<lparr>layers := layers p @ [l]\<rparr>"
  have c: "QgsVectorLayer p file_path nm = Inr l"
    using assms s by (simp add: QgsVectorLayer_def invoke_def l_def)
  have a: "add_vector_layer file_path layer_name p = (Some l, p')"
    using assms c
    by (simp add: add_vector_layer_def nm_def [symmetric] isValid_def addMapLayer_def invoke_def
        bind_def try_except_def p'_def l_def)
  have "\<forall>x\<in>set (layers p). lid x \<noteq> lid l"
  proof
    fix x assume "x \<in> set (layers p)"
    then have "lid x < fresh_id (layers p)" by (rule fresh_id_fresh)
    then show "lid x \<noteq> lid l" by (simp add: l_def)
  qed
  then have "map_of (map (\<lambda>x. (lid x, x)) (layers p @ [l])) (lid l) = Some l"
    by (rule map_of_registered)
  moreover have lay: "layers p' = layers p @ [l]"
    by (simp add: p'_def)
  ultimately have m: "map_of (map (\<lambda>x. (lid x, x)) (layers p')) (lid l) = Some l"
    by (simp only:)
  have ml: "mapLayers p' = Inr (map (\<lambda>x. (lid x, x)) (layers p'))"
    using assms by (simp add: mapLayers_def invoke_def p'_def)
  from a c m ml show "\<exists>l p' m. add_vector_layer file_path layer_name p = (Some l, p')
      \<and> QgsVectorLayer p file_path (name_or layer_name (fst (splitext (basename file_path)))) = Inr l
      \<and> kind l = Vector \<and> valid l \<and> layers p' = layers p @ [l]
      \<and> mapLayers p' = Inr m \<and> map_of m (lid l) = Some l"
    unfolding nm_def by (intro exI [of _ l] exI [of _ p'] exI [of _ "map (\<lambda>x. (lid x, x)) (layers p')"])
      (simp add: l_def p'_def)
qed

lemma demo_quiet: "faulty demo_project = {}"
  by (simp add: demo_project_def)

theorem add_vector_layer_registers_witness:
  "add_vector_layer ''/data/missing.shp'' (Some ''lost'') demo_project = (None, demo_project)
   \<and> (\<exists>l p' m. add_vector_layer ''/data/roads.shp'' (Some ''main roads'') demo_project = (Some l, p')
          \<and> kind l = Vector \<and> valid l
          \<and> layers p' = layers demo_project @ [l]
          \<and> mapLayers p' = Inr m \<and> map_of m (lid l) = Some l)"
proof -
  have missing: "vector_sources demo_project ''/data/missing.shp'' = None"
    by (simp add: demo_project_def)
  have present: "vector_sources demo_project ''/data/roads.shp''
      = Some \<lparr>src_crs = ''EPSG:4326'', src_fields = [''ref''],
               src_rows = [\<lparr>row_id = 1, row_values = [QStr ''A1'']\<rparr>]\<rparr>"
    by (simp add: demo_project_def)
  from add_vector_layer_registers [OF demo_quiet, of "''/data/missing.shp''" "Some ''lost''"] missing
  have 1: "add_vector_layer ''/data/missing.shp'' (Some ''lost'') demo_project = (None, demo_project)"
    by blast
  from add_vector_layer_registers [OF demo_quiet, of "''/data/roads.shp''" "Some ''main roads''"] present
  have 2: "\<exists>l p' m. add_vector_layer ''/data/roads.shp'' (Some ''main roads'') demo_project = (Some l, p')
          \<and> kind l = Vector \<and> valid l
          \<and> layers p' = layers demo_project @ [l]
          \<and> mapLayers p' = Inr m \<and> map_of m (lid l) = Some l"
    by blast
  from 1 2 show ?thesis ..
qed

lemma add_layer_None_unchanged:
  "fst (add_vector_layer file_path layer_name p) = None \<Longrightarrow> snd (add_vector_layer file_path layer_name p) = p"
  "fst (add_raster_layer file_path layer_name p) = None \<Longrightarrow> snd (add_raster_layer file_path layer_name p) = p"
  by (auto simp: add_vector_layer_def add_raster_layer_def bind_def try_except_def Let_def
      split: sum.splits if_splits)


text \<open>
  Claim C9. Whichever toolkit calls raise: when the layer that the constructor builds for
  the path is reported invalid by \<open>isValid\<close>, \<open>add_vector_layer\<close> and \<open>add_raster_layer\<close>
  return \<open>None\<close> and the project, with its layer mapping, is exactly the one before the
  call; and whenever one of them returns \<open>None\<close>, for this or any other reason, the
  project it returns is the one it was given.
\<close>

theorem failed_add_leaves_project:
  "(\<forall>l. QgsVectorLayer p file_path (name_or layer_name (fst (splitext (basename file_path)))) = Inr l
         \<and> isValid p l = Inr False \<longrightarrow> add_vector_layer file_path layer_name p = (None, p))
   \<and> (\<forall>l. QgsRasterLayer p file_path (name_or layer_name (fst (splitext (basename file_path)))) = Inr l
         \<and> isValid p l = Inr False \<longrightarrow> add_raster_layer file_path layer_name p = (None, p))
   \<and> (fst (add_vector_layer file_path layer_name p) = None
         \<longrightarrow> snd (add_vector_layer file_path layer_name p) = p)
   \<and> (fst (add_raster_layer file_path layer_name p) = None
         \<longrightarrow> snd (add_raster_layer file_path layer_name p) = p)"
proof (intro conjI allI impI)
  fix l
  assume "QgsVectorLayer p file_path (name_or layer_name (fst (splitext (basename file_path)))) = Inr l
      \<and> isValid p l = Inr False"
  then show "add_vector_layer file_path layer_name p = (None, p)"
    by (simp add: add_vector_layer_def bind_def try_except_def)
next
  fix l
  assume "QgsRasterLayer p file_path (name_or layer_name (fst (splitext (basename file_path)))) = Inr l
      \<and> isValid p l = Inr False"
  then show "add_raster_layer file_path layer_name p = (None, p)"
    by (simp add: add_raster_layer_def bind_def try_except_def)
next
  assume "fst (add_vector_layer file_path layer_name p) = None"
  then show "snd (add_vector_layer file_path layer_name p) = p"
    by (rule add_layer_None_unchanged)
next
  assume "fst (add_raster_layer file_path layer_name p) = None"
  then show "snd (add_raster_layer file_path layer_name p) = p"
    by (rule add_layer_None_unchanged)
qed

theorem failed_add_leaves_project_witness:
  "add_vector_layer ''/data/missing.shp'' (Some ''lost'') demo_project = (None, demo_project)
   \<and> add_raster_layer ''/data/missing.tif'' (Some ''lost'') demo_project = (None, demo_project)
   \<and> snd (add_vector_layer ''/data/missing.shp'' (Some ''lost'') demo_project) = demo_project
   \<and> snd (add_raster_layer ''/data/missing.tif'' (Some ''lost'') demo_project) = demo_project"
proof -
  let ?v = "\<lparr>lid = fresh_id (layers demo_project), lname = ''lost'', kind = Vector, crs = [],
             valid = False, lfields = [], rows = [], selection = []\<rparr>"
  let ?r = "\<lparr>lid = fresh_id (layers demo_project), lname = ''lost'', kind = Raster, crs = [],
             valid = False, lfields = [], rows = [], selection = []\<rparr>"
  have nm: "\<And>d. name_or (Some ''lost'') d = ''lost''"
    by (simp add: name_or_def)
  have "vector_sources demo_project ''/data/missing.shp'' = None"
    and "raster_sources demo_project ''/data/missing.tif'' = None"
    by (simp_all add: demo_project_def)
  then have cv: "QgsVectorLayer demo_project ''/data/missing.shp''
        (name_or (Some ''lost'') (fst (splitext (basename ''/data/missing.shp'')))) = Inr ?v"
    and cr: "QgsRasterLayer demo_project ''/data/missing.tif''
        (name_or (Some ''lost'') (fst (splitext (basename ''/data/missing.tif'')))) = Inr ?r"
    unfolding nm by (simp_all add: QgsVectorLayer_def QgsRasterLayer_def invoke_def demo_quiet)
  have iv: "isValid demo_project ?v = Inr False" and ir: "isValid demo_project ?r = Inr False"
    by (simp_all add: isValid_def invoke_def demo_quiet)
  note spec_v = failed_add_leaves_project [of demo_project "''/data/missing.shp''" "Some ''lost''"]
  note spec_r = failed_add_leaves_project [of demo_project "''/data/missing.tif''" "Some ''lost''"]
  from spec_v cv iv
  have 1: "add_vector_layer ''/data/missing.shp'' (Some ''lost'') demo_project = (None, demo_project)"
    by blast
  from spec_r cr ir
  have 2: "add_raster_layer ''/data/missing.tif'' (Some ''lost'') demo_project = (None, demo_project)"
    by blast
  from 1 have "fst (add_vector_layer ''/data/missing.shp'' (Some ''lost'') demo_project) = None"
    by simp
  with spec_v
  have 3: "snd (add_vector_layer ''/data/missing.shp'' (Some ''lost'') demo_project) = demo_project"
    by blast
  from 2 have "fst (add_raster_layer ''/data/missing.tif'' (Some ''lost'') demo_project) = None"
    by simp
  with spec_r
  have 4: "snd (add_raster_layer ''/data/missing.tif'' (Some ''lost'') demo_project) = demo_project"
    by blast
  from 1 2 3 4 show ?thesis by (intro conjI)
qed

subsection \<open>The name derived from the path\<close>

lemma takeWhile_rev_length:
  assumes "c \<in> set xs"
  shows "length (takeWhile (\<lambda>x. x \<noteq> c) (rev xs)) < length xs"
proof -
  let ?P = "\<lambda>x. x \<noteq> c"
  have "dropWhile ?P (rev xs) \<noteq> []"
    using assms by (simp add: dropWhile_eq_Nil_conv)
  then have pos: "0 < length (dropWhile ?P (rev xs))"
    by simp
  have "length (takeWhile ?P (rev xs)) + length (dropWhile ?P (rev xs)) = length xs"
    by (metis length_append takeWhile_dropWhile_id length_rev)
  with pos show ?thesis by linarith
qed

lemma rfind_from_eq:
  "rfind_from c xs i found =
     (if c \<in> set xs
      then i + int (length xs - 1 - length (takeWhile (\<lambda>x. x \<noteq> c) (rev xs)))
      else found)"
proof (induction xs arbitrary: i found)
  case Nil
  show ?case by simp
next
  case (Cons x xs)
  let ?n = "length (takeWhile (\<lambda>x. x \<noteq> c) (rev xs))"
  show ?case
  proof (cases "c \<in> set xs")
    case True
    then have lt: "?n < length xs"
      by (rule takeWhile_rev_length)
    have "takeWhile (\<lambda>x. x \<noteq> c) (rev xs @ [x]) = takeWhile (\<lambda>x. x \<noteq> c) (rev xs)"
      using True by (intro takeWhile_append1 [of c]) auto
    then have len: "length (takeWhile (\<lambda>x. x \<noteq> c) (rev (x # xs))) = ?n"
      by simp
    have "rfind_from c (x # xs) i found = i + 1 + int (length xs - 1 - ?n)"
      using True by (simp add: Cons.IH)
    also have "\<dots> = i + int (length (x # xs) - 1 - ?n)"
      using lt by simp
    finally show ?thesis
      using True by (simp only: len list.set insert_iff if_True simp_thms)
  next
    case False
    have "takeWhile (\<lambda>x. x \<noteq> c) (rev xs @ [x]) = rev xs @ takeWhile (\<lambda>x. x \<noteq> c) [x]"
      using False by (intro takeWhile_append2) auto
    then have len: "x = c \<Longrightarrow> length (takeWhile (\<lambda>x. x \<noteq> c) (rev (x # xs))) = length xs"
      by simp
    have step: "rfind_from c (x # xs) i found = (if x = c then i else found)"
      using False by (simp add: Cons.IH)
    show ?thesis
    proof (cases "x = c")
      case True
      with step len show ?thesis by (simp del: rev.simps takeWhile_append1 takeWhile_append2)
    next
      case neq: False
      with step False show ?thesis by auto
    qed
  qed
qed

lemma rfind_eq:
  "rfind p c = (if c \<in> set p
      then int (length p - 1 - length (takeWhile (\<lambda>x. x \<noteq> c) (rev p))) else - 1)"
  by (simp add: rfind_def rfind_from_eq)

lemma rev_takeWhile_rev:
  "rev (takeWhile P (rev p)) = drop (length p - length (takeWhile P (rev p))) p"
proof -
  have "rev p = takeWhile P (rev p) @ dropWhile P (rev p)" by simp
  then have "p = rev (dropWhile P (rev p)) @ rev (takeWhile P (rev p))"
    by (metis rev_append rev_rev_ident)
  moreover have "length (rev (dropWhile P (rev p))) = length p - length (takeWhile P (rev p))"
    by (metis length_rev length_append takeWhile_dropWhile_id add_diff_cancel_left')
  ultimately show ?thesis
    by (metis append_eq_conv_conj)
qed

lemma basename_base_name: "basename p = base_name p"
proof (cases "CHR ''/'' \<in> set p")
  case True
  define n where "n = length (takeWhile (\<lambda>x. x \<noteq> CHR ''/'') (rev p))"
  have lt: "n < length p"
    unfolding n_def using True by (rule takeWhile_rev_length)
  have r: "rfind p (CHR ''/'') = int (length p - 1 - n)"
    using True by (simp add: rfind_eq n_def)
  have "nat (rfind p (CHR ''/'') + 1) = length p - n"
    unfolding r using lt by simp
  then have "basename p = drop (length p - n) p"
    unfolding basename_def Let_def by (simp only:)
  also have "\<dots> = base_name p"
    unfolding base_name_def n_def by (rule rev_takeWhile_rev [symmetric])
  finally show ?thesis .
next
  case False
  have tw: "takeWhile (\<lambda>x. x \<noteq> CHR ''/'') (rev p) = rev p"
    by (rule takeWhile_eq_all_conv [THEN iffD2]) (use False in auto)
  have r: "rfind p (CHR ''/'') = - 1"
    using False by (simp add: rfind_eq)
  show ?thesis
    unfolding basename_def base_name_def Let_def r tw by simp
qed

lemma base_name_no_sep: "CHR ''/'' \<notin> set (base_name p)"
proof -
  have "\<forall>x\<in>set (takeWhile (\<lambda>c. c \<noteq> CHR ''/'') (rev p)). x \<noteq> CHR ''/''"
    by (metis set_takeWhileD)
  then show ?thesis by (auto simp: base_name_def)
qed

lemma skip_leading_dots_iff:
  "skip_leading_dots p f d \<longleftrightarrow> (\<exists>k. f \<le> k \<and> k < d \<and> take 1 (drop k p) \<noteq> ''.'')"
proof (induction p f d rule: skip_leading_dots.induct)
  case (1 p f d)
  show ?case
  proof (cases "f < d")
    case False
    then show ?thesis by (subst skip_leading_dots.simps) auto
  next
    case True
    show ?thesis
    proof (cases "take 1 (drop f p) \<noteq> ''.''")
      case hit: True
      with True show ?thesis by (subst skip_leading_dots.simps) auto
    next
      case miss: False
      have "skip_leading_dots p f d = skip_leading_dots p (f + 1) d"
        using True miss by (subst skip_leading_dots.simps) simp
      also have "\<dots> \<longleftrightarrow> (\<exists>k. f + 1 \<le> k \<and> k < d \<and> take 1 (drop k p) \<noteq> ''.'')"
        using True miss by (intro "1.IH") simp_all
      also have "\<dots> \<longleftrightarrow> (\<exists>k. f \<le> k \<and> k < d \<and> take 1 (drop k p) \<noteq> ''.'')"
      proof
        assume "\<exists>k. f + 1 \<le> k \<and> k < d \<and> take 1 (drop k p) \<noteq> ''.''"
        then obtain k where "f + 1 \<le> k" "k < d" "take 1 (drop k p) \<noteq> ''.''" by blast
        then have "f \<le> k \<and> k < d \<and> take 1 (drop k p) \<noteq> ''.''" by simp
        then show "\<exists>k. f \<le> k \<and> k < d \<and> take 1 (drop k p) \<noteq> ''.''" ..
      next
        assume "\<exists>k. f \<le> k \<and> k < d \<and> take 1 (drop k p) \<noteq> ''.''"
        then obtain k where k: "f \<le> k" "k < d" "take 1 (drop k p) \<noteq> ''.''" by blast
        with miss have "k \<noteq> f" by auto
        with k have "f + 1 \<le> k \<and> k < d \<and> take 1 (drop k p) \<noteq> ''.''" by simp
        then show "\<exists>k. f + 1 \<le> k \<and> k < d \<and> take 1 (drop k p) \<noteq> ''.''" ..
      qed
      finally show ?thesis .
    qed
  qed
qed

lemma skip_leading_dots_take:
  assumes "d \<le> length p"
  shows "skip_leading_dots p 0 d \<longleftrightarrow> (\<exists>c\<in>set (take d p). c \<noteq> CHR ''.'')"
proof -
  have len: "length (take d p) = d"
    using assms by simp
  have one: "take 1 (drop k p) = [p ! k]" if "k < d" for k
  proof -
    from that assms have "k < length p" by simp
    then have "drop k p = p ! k # drop (Suc k) p"
      by (rule Cons_nth_drop_Suc [symmetric])
    then show ?thesis by simp
  qed
  show ?thesis
  proof
    assume "skip_leading_dots p 0 d"
    then obtain k where k: "k < d" "take 1 (drop k p) \<noteq> ''.''"
      unfolding skip_leading_dots_iff by blast
    from k(2) have "[p ! k] \<noteq> ''.''"
      unfolding one [OF k(1)] .
    then have "p ! k \<noteq> CHR ''.''"
      by simp
    moreover have "take d p ! k = p ! k"
      using k(1) by simp
    moreover have "take d p ! k \<in> set (take d p)"
      using k(1) len by (intro nth_mem) simp
    ultimately show "\<exists>c\<in>set (take d p). c \<noteq> CHR ''.''"
      by metis
  next
    assume "\<exists>c\<in>set (take d p). c \<noteq> CHR ''.''"
    then obtain c where c: "c \<in> set (take d p)" "c \<noteq> CHR ''.''" by blast
    then obtain k where k: "k < length (take d p)" "take d p ! k = c"
      by (metis in_set_conv_nth)
    then have kd: "k < d" using len by simp
    from kd k(2) have "p ! k = c" by simp
    moreover have "take 1 (drop k p) = [p ! k]"
      using kd by (rule one)
    ultimately have "0 \<le> k \<and> k < d \<and> take 1 (drop k p) \<noteq> ''.''"
      using c(2) kd by simp
    then show "skip_leading_dots p 0 d"
      unfolding skip_leading_dots_iff ..
  qed
qed

lemma splitext_extension:
  assumes "CHR ''/'' \<notin> set b"
  shows "splitext b = (without_extension b, final_extension b)"
proof (cases "CHR ''.'' \<in> set b")
  case False
  then have "final_extension b = []"
    by (simp add: final_extension_def)
  moreover have "rfind b (CHR ''.'') = - 1" "rfind b (CHR ''/'') = - 1"
    using False assms by (simp_all add: rfind_eq)
  ultimately show ?thesis
    by (simp add: splitext_def without_extension_def)
next
  case True
  define n where "n = length (takeWhile (\<lambda>c. c \<noteq> CHR ''.'') (rev b))"
  define d where "d = length b - 1 - n"
  have lt: "n < length b"
    unfolding n_def using True by (rule takeWhile_rev_length)
  have d: "d < length b" "Suc d = length b - n" "length b - Suc n = d"
    using lt by (simp_all add: d_def)
  have sep: "rfind b (CHR ''/'') = - 1"
    using assms by (simp add: rfind_eq)
  have dot: "rfind b (CHR ''.'') = int d"
    using True by (simp add: rfind_eq d_def n_def)
  have tail: "drop (Suc d) b = rev (takeWhile (\<lambda>c. c \<noteq> CHR ''.'') (rev b))"
    unfolding d(2) n_def by (rule rev_takeWhile_rev [symmetric])
  have "\<not> (rev b ! n \<noteq> CHR ''.'')"
    unfolding n_def using lt [unfolded n_def] by (intro nth_length_takeWhile) simp
  moreover have "rev b ! n = b ! d"
    using lt by (simp add: rev_nth d_def)
  ultimately have at: "b ! d = CHR ''.''" by simp
  have ext: "drop d b = CHR ''.'' # rev (takeWhile (\<lambda>c. c \<noteq> CHR ''.'') (rev b))"
    using Cons_nth_drop_Suc [OF d(1)] at tail by simp
  have skip: "skip_leading_dots b 0 d \<longleftrightarrow> (\<exists>c\<in>set (take d b). c \<noteq> CHR ''.'')"
    using d(1) by (intro skip_leading_dots_take) simp
  have fe: "final_extension b =
      (if \<exists>c\<in>set (take d b). c \<noteq> CHR ''.'' then drop d b else [])"
    using True by (simp add: final_extension_def Let_def n_def [symmetric] d(3) ext)
  have sp: "splitext b =
      (if \<exists>c\<in>set (take d b). c \<noteq> CHR ''.'' then (take d b, drop d b) else (b, []))"
    by (simp add: splitext_def sep dot skip)
  show ?thesis
  proof (cases "\<exists>c\<in>set (take d b). c \<noteq> CHR ''.''")
    case yes: True
    then have "final_extension b = drop d b" by (simp only: fe if_True)
    moreover have "length b - length (drop d b) = d"
      using d(1) by simp
    ultimately have "without_extension b = take d b"
      by (simp only: without_extension_def)
    with yes show ?thesis by (simp only: sp fe if_True)
  next
    case no: False
    then have "final_extension b = []" by (simp only: fe if_False)
    then have "without_extension b = b" by (simp add: without_extension_def)
    with no show ?thesis by (simp only: sp fe if_False)
  qed
qed

lemma derived_name:
  "fst (splitext (basename file_path)) = without_extension (base_name file_path)"
  by (simp add: basename_base_name splitext_extension base_name_no_sep)

lemma derived_name_example:
  "without_extension (base_name ''/data/roads.shp'') = ''roads''"
  by (simp add: without_extension_def final_extension_def base_name_def)

lemma derived_name_example_code:
  "fst (splitext (basename ''/data/roads.shp'')) = ''roads''"
  by (simp add: splitext_def basename_def rfind_def skip_leading_dots.simps)

lemma add_vector_layer_valid:
  assumes "faulty p = {}" and "vector_sources p file_path = Some s"
  shows "add_vector_layer file_path layer_name p =
     (let l = \<lparr>lid = fresh_id (layers p),
                lname = name_or layer_name (fst (splitext (basename file_path))),
                kind = Vector, crs = src_crs s, valid = True, lfields = src_fields s,
                rows = src_rows s, selection = []\<rparr>
      in (Some l, p\<lparr>layers := layers p @ [l]\<rparr>))"
  using assms
  by (simp add: add_vector_layer_def QgsVectorLayer_def isValid_def addMapLayer_def invoke_def
      bind_def try_except_def Let_def)

lemma add_raster_layer_valid:
  assumes "faulty p = {}" and "raster_sources p file_path = Some c"
  shows "add_raster_layer file_path layer_name p =
     (let l = \<lparr>lid = fresh_id (layers p),
                lname = name_or layer_name (fst (splitext (basename file_path))),
                kind = Raster, crs = c, valid = True, lfields = [],
                rows = [], selection = []\<rparr>
      in (Some l, p\<lparr>layers := layers p @ [l]\<rparr>))"
  using assms
  by (simp add: add_raster_layer_def QgsRasterLayer_def isValid_def addMapLayer_def invoke_def
      bind_def try_except_def Let_def)

text \<open>
  Claim C10. When the toolkit raises nothing and no layer name is given, the layer that
  \<open>add_vector_layer\<close> or \<open>add_raster_layer\<close> registers for a readable path is named by the
  base name of the path without its final extension; \<open>/data/roads.shp\<close> gives \<open>roads\<close>.
\<close>

theorem derived_layer_name:
  assumes "faulty p = {}"
  shows "(\<forall>s. vector_sources p file_path = Some s \<longrightarrow>
            (\<exists>l p'. add_vector_layer file_path None p = (Some l, p') \<and> l \<in> set (layers p')
               \<and> lname l = without_extension (base_name file_path)))
       \<and> (\<forall>c. raster_sources p file_path = Some c \<longrightarrow>
            (\<exists>l p'. add_raster_layer file_path None p = (Some l, p') \<and> l \<in> set (layers p')
               \<and> lname l = without_extension (base_name file_path)))"
  using assms
  by (simp add: add_vector_layer_valid add_raster_layer_valid Let_def name_or_def derived_name)

theorem derived_layer_name_witness:
  "(\<exists>l p'. add_vector_layer ''/data/roads.shp'' None demo_project = (Some l, p')
        \<and> l \<in> set (layers p') \<and> lname l = ''roads'')
   \<and> (\<exists>l p'. add_raster_layer ''/data/dem.tif'' None demo_project = (Some l, p')
        \<and> l \<in> set (layers p') \<and> lname l = ''dem'')"
proof -
  have v: "vector_sources demo_project ''/data/roads.shp''
      = Some \<lparr>src_crs = ''EPSG:4326'', src_fields = [''ref''],
               src_rows = [\<lparr>row_id = 1, row_values = [QStr ''A1'']\<rparr>]\<rparr>"
    by (simp add: demo_project_def)
  have r: "raster_sources demo_project ''/data/dem.tif'' = Some ''EPSG:4326''"
    by (simp add: demo_project_def)
  have nv: "without_extension (base_name ''/data/roads.shp'') = ''roads''"
    by (simp add: without_extension_def final_extension_def base_name_def)
  have nr: "without_extension (base_name ''/data/dem.tif'') = ''dem''"
    by (simp add: without_extension_def final_extension_def base_name_def)
  from derived_layer_name [OF demo_quiet, of "''/data/roads.shp''"] v
  have 1: "\<exists>l p'. add_vector_layer ''/data/roads.shp'' None demo_project = (Some l, p')
        \<and> l \<in> set (layers p') \<and> lname l = ''roads''"
    unfolding nv by blast
  from derived_layer_name [OF demo_quiet, of "''/data/dem.tif''"] r
  have 2: "\<exists>l p'. add_raster_layer ''/data/dem.tif'' None demo_project = (Some l, p')
        \<and> l \<in> set (layers p') \<and> lname l = ''dem''"
    unfolding nr by blast
  from 1 2 show ?thesis ..
qed

end
